theory Spec2Isabelle
  imports Complex_Main
begin

section \<open>Data model\<close>

text \<open>
  The program is \<^verbatim>\<open>convert_to_432hz.py\<close>. Its library calls are parameters,
  collected in the record \<open>env\<close>, so every theorem holds for each behaviour of the
  libraries: the transform, the bin frequencies (which the library computes in rounded
  arithmetic), the index sort, channel mixing, sample rate conversion, and whether the
  operating system lets a file be written or renamed. Numbers are reals; the arithmetic
  inside \<^verbatim>\<open>np.average\<close> and the comparisons of the program are exact.
\<close>

type_synonym path = string

text \<open>A pydub \<^verbatim>\<open>AudioSegment\<close>: its frame rate and its array of samples.\<close>

record audio =
  frame_rate :: int
  samples :: "real list"

text \<open>
  The files on disk: a path holds an audio file, or is a directory, or holds nothing.
\<close>

datatype entry = File audio | Dir

type_synonym filesystem = "path \<Rightarrow> entry option"

text \<open>
  The library functions the program calls, and the environment it runs in:
  \<^item> \<open>rfft\<close>: \<^verbatim>\<open>scipy.fft.rfft\<close>;
  \<^item> \<open>rfftfreq n rate\<close>: \<^verbatim>\<open>scipy.fft.rfftfreq(n, d=1 / rate)\<close>, the bin
    frequencies as the library computes them;
  \<^item> \<open>argsort\<close>: \<^verbatim>\<open>np.argsort\<close> with its default sort kind, which NumPy
    documents as not stable;
  \<^item> \<open>set_channels\<close>: \<^verbatim>\<open>AudioSegment.set_channels\<close>;
  \<^item> \<open>set_frame_rate\<close>: \<^verbatim>\<open>AudioSegment.set_frame_rate\<close>;
  \<^item> \<open>fl_mul rate ratio\<close>: the float the machine computes for
    \<^verbatim>\<open>audio.frame_rate * speed_ratio\<close>, with the rounding of the quotient
    \<^verbatim>\<open>432.0 / dominant_freq\<close> and of the product;
  \<^item> \<open>can_write fs p\<close>: whether, with the files \<open>fs\<close> on disk, the operating system
    lets a file be created or replaced at \<open>p\<close> (the directory exists, permissions and
    space allow it);
  \<^item> \<open>can_rename fs src dst\<close>: whether it lets \<open>src\<close> be renamed to \<open>dst\<close> (on
    Windows it does not when \<open>dst\<close> exists).
\<close>

record env =
  rfft :: "real list \<Rightarrow> complex list"
  rfftfreq :: "nat \<Rightarrow> int \<Rightarrow> real list"
  argsort :: "real list \<Rightarrow> nat list"
  set_channels :: "audio \<Rightarrow> nat \<Rightarrow> audio"
  set_frame_rate :: "audio \<Rightarrow> int \<Rightarrow> audio"
  fl_mul :: "real \<Rightarrow> real \<Rightarrow> real"
  can_write :: "filesystem \<Rightarrow> path \<Rightarrow> bool"
  can_rename :: "filesystem \<Rightarrow> path \<Rightarrow> path \<Rightarrow> bool"

text \<open>The dictionary \<^verbatim>\<open>analyze_tuning\<close> returns.\<close>

record tuning_info =
  dominant_freq :: real
  sample_rate :: int
  duration :: real
  harmonics :: "real list"

section \<open>Files\<close>

text \<open>
  \<^verbatim>\<open>AudioSegment.from_file(p)\<close> raises unless \<open>p\<close> holds an audio file.
\<close>

definition load :: "filesystem \<Rightarrow> path \<Rightarrow> audio option" where
  "load fs p = (case fs p of Some (File au) \<Rightarrow> Some au | _ \<Rightarrow> None)"

text \<open>
  \<^verbatim>\<open>audio.export(p, format="wav")\<close> raises when \<open>p\<close> is a directory or the
  operating system refuses the write; otherwise \<open>p\<close> holds the buffer afterwards, and
  reads back as that buffer. A write that raises is taken to leave the disk as it was (a
  file written in part is not modelled).
\<close>

definition export :: "env \<Rightarrow> filesystem \<Rightarrow> path \<Rightarrow> audio \<Rightarrow> filesystem option" where
  "export E fs p au =
     (if fs p = Some Dir \<or> \<not> can_write E fs p then None else Some (fs(p \<mapsto> File au)))"

text \<open>
  \<^verbatim>\<open>os.rename(src, dst)\<close> raises when \<open>src\<close> does not exist, when \<open>src\<close> is a
  file and \<open>dst\<close> a directory, or when the operating system refuses; otherwise \<open>dst\<close>
  holds what \<open>src\<close> held and \<open>src\<close> is gone (renaming a file to itself changes
  nothing).
\<close>

definition os_rename :: "env \<Rightarrow> filesystem \<Rightarrow> path \<Rightarrow> path \<Rightarrow> filesystem option" where
  "os_rename E fs src dst =
     (case fs src of
        None \<Rightarrow> None
      | Some e \<Rightarrow>
          if (e \<noteq> Dir \<and> fs dst = Some Dir) \<or> \<not> can_rename E fs src dst then None
          else Some ((fs(src := None))(dst \<mapsto> e)))"

section \<open>The spectral estimator\<close>

text \<open>
  Indexing an array with a boolean mask, \<^verbatim>\<open>xs[mask]\<close>: the entries where the
  mask is true, in order; a mask of another length raises \<^verbatim>\<open>IndexError\<close>.
\<close>

definition mask_select :: "bool list \<Rightarrow> 'a list \<Rightarrow> 'a list option" where
  "mask_select msk xs =
     (if length msk = length xs then Some (map snd (filter fst (zip msk xs))) else None)"

text \<open>
  \<^verbatim>\<open>np.average(a, weights=w)\<close>: the weights are summed first, and a sum of
  zero raises \<^verbatim>\<open>ZeroDivisionError\<close>; otherwise the result is
  \<^verbatim>\<open>multiply(a, w).sum() / w.sum()\<close>.
\<close>

definition np_average :: "real list \<Rightarrow> real list \<Rightarrow> real option" where
  "np_average a w =
     (if length a \<noteq> length w then None
      else let scl = sum_list w
           in if scl = 0 then None else Some (sum_list (map2 (*) a w) / scl))"

text \<open>
  Indexing an array with an array of indices, \<^verbatim>\<open>xs[idx]\<close>: an index out of
  range raises \<^verbatim>\<open>IndexError\<close>.
\<close>

definition take_idx :: "'a list \<Rightarrow> nat list \<Rightarrow> 'a list option" where
  "take_idx xs idx =
     (if list_all (\<lambda>i. i < length xs) idx then Some (map ((!) xs) idx) else None)"

text \<open>
  Lines 22 to 40 of \<^verbatim>\<open>analyze_tuning\<close>, from the mono samples and the sample
  rate on. Every exception of the body is caught by the function's handler and gives
  \<open>None\<close>: the division \<^verbatim>\<open>1 / sample_rate\<close> at rate zero, the transform of
  an empty array, a mask of the wrong length, weights that sum to zero.
\<close>

definition analyze_samples :: "env \<Rightarrow> real list \<Rightarrow> int \<Rightarrow> tuning_info option" where
  "analyze_samples E smp rate =
     (if smp = [] \<or> rate = 0 then None
      else
        let fft_vals = rfft E smp;
            fft_freqs = rfftfreq E (length smp) rate;
            valid_indices = map (\<lambda>f. f \<ge> 400 \<and> f \<le> 500) fft_freqs
        in case mask_select valid_indices fft_vals of
             None \<Rightarrow> None
           | Some sel_vals \<Rightarrow>
              (case mask_select valid_indices fft_freqs of
                 None \<Rightarrow> None
               | Some filtered_fft_freqs \<Rightarrow>
                  let filtered_fft_vals = map cmod sel_vals
                  in if length filtered_fft_vals > 0 then
                       (case np_average filtered_fft_freqs filtered_fft_vals of
                          None \<Rightarrow> None
                        | Some dominant \<Rightarrow>
                           (case take_idx filtered_fft_freqs
                                   (take 5 (argsort E (map uminus filtered_fft_vals))) of
                              None \<Rightarrow> None
                            | Some top5 \<Rightarrow>
                               Some \<lparr>dominant_freq = dominant,
                                     sample_rate = rate,
                                     duration = real (length smp) / real_of_int rate,
                                     harmonics = top5\<rparr>))
                     else None))"

text \<open>
  \<^verbatim>\<open>analyze_tuning(file_path)\<close>: a file that cannot be loaded raises, and the
  handler returns \<open>None\<close>.
\<close>

definition analyze_tuning :: "env \<Rightarrow> filesystem \<Rightarrow> path \<Rightarrow> tuning_info option" where
  "analyze_tuning E fs file_path =
     (case load fs file_path of
        None \<Rightarrow> None
      | Some loaded \<Rightarrow>
         let au = set_channels E loaded 1
         in analyze_samples E (samples au) (frame_rate au))"

text \<open>
  The specification's description of the capture band: the bins of the half spectrum,
  each a bin frequency with its transform value, whose frequency lies in the inclusive
  range from 400 Hz to 500 Hz.
\<close>

definition band_bins :: "real list \<Rightarrow> complex list \<Rightarrow> (real \<times> complex) list" where
  "band_bins freqs vals = filter (\<lambda>(f, v). 400 \<le> f \<and> f \<le> 500) (zip freqs vals)"

text \<open>The specification's centroid: \<open>sum(freq_i * |mag_i|) / sum(|mag_i|)\<close>.\<close>

definition centroid :: "(real \<times> complex) list \<Rightarrow> real" where
  "centroid bins =
     sum_list (map (\<lambda>(f, v). f * cmod v) bins) / sum_list (map (\<lambda>(f, v). cmod v) bins)"

text \<open>The in-band bins of a mono buffer, as the libraries return them.\<close>

definition bins_of :: "env \<Rightarrow> audio \<Rightarrow> (real \<times> complex) list" where
  "bins_of E au =
     band_bins (rfftfreq E (length (samples au)) (frame_rate au)) (rfft E (samples au))"

section \<open>Strings and paths\<close>

text \<open>
  Python strings are modelled as lists of characters. \<open>str_int\<close> is the decimal text an
  f-string gives for an integer.
\<close>

definition digit_char :: "nat \<Rightarrow> char" where
  "digit_char d = ''0123456789'' ! d"

function str_nat :: "nat \<Rightarrow> string" where
  "str_nat n = (if n < 10 then [digit_char n] else str_nat (n div 10) @ [digit_char (n mod 10)])"
  by pat_completeness auto
termination
  by (relation "measure id") auto

definition str_int :: "int \<Rightarrow> string" where
  "str_int i = (if i < 0 then CHR ''-'' # str_nat (nat (- i)) else str_nat (nat i))"

text \<open>
  \<^verbatim>\<open>s.replace(old, new)\<close>: every occurrence of \<open>old\<close> is replaced, scanning from
  the left and continuing behind each match; an empty \<open>old\<close> matches before every
  character and at the end.
\<close>

fun str_replace :: "string \<Rightarrow> string \<Rightarrow> string \<Rightarrow> string" where
  "str_replace old new [] = (if old = [] then new else [])"
| "str_replace old new (c # cs) =
     (if old = [] then new @ concat (map (\<lambda>x. x # new) (c # cs))
      else if take (length old) (c # cs) = old
           then new @ str_replace old new (drop (length old) (c # cs))
           else c # str_replace old new cs)"

text \<open>
  \<^verbatim>\<open>s.rfind(c)\<close>: the last index of \<open>c\<close>, or \<open>-1\<close>.
  \<^verbatim>\<open>os.path.splitext\<close> (POSIX): the extension starts at the last dot behind the
  last slash, unless only dots precede it in the file name.
\<close>

definition rfind :: "char \<Rightarrow> string \<Rightarrow> int" where
  "rfind c s =
     (case filter (\<lambda>i. s ! i = c) (rev [0..<length s]) of [] \<Rightarrow> - 1 | i # _ \<Rightarrow> int i)"

definition splitext :: "path \<Rightarrow> path \<times> string" where
  "splitext p =
     (let sepIndex = rfind CHR ''/'' p;
          dotIndex = rfind CHR ''.'' p
      in if dotIndex > sepIndex
            \<and> list_ex (\<lambda>i. p ! i \<noteq> CHR ''.'') [nat (sepIndex + 1)..<nat dotIndex]
         then (take (nat dotIndex) p, drop (nat dotIndex) p)
         else (p, []))"

text \<open>
  \<^verbatim>\<open>os.path.join(a, b)\<close> (POSIX) for two components.
\<close>

definition path_join :: "path \<Rightarrow> path \<Rightarrow> path" where
  "path_join a b =
     (if take 1 b = ''/'' then b
      else if a = [] \<or> last a = CHR ''/'' then a @ b
      else a @ ''/'' @ b)"

text \<open>
  Line 81, the scratch path of an iteration, and lines 128 and 129, the output path the
  batch driver derives. \<^verbatim>\<open>os.path.relpath\<close> is not modelled: the relative path
  it returns is the parameter \<open>relative_path\<close>.
\<close>

definition temp_output_path :: "path \<Rightarrow> int \<Rightarrow> path" where
  "temp_output_path output_path iteration =
     str_replace ''.wav'' (''_temp_'' @ str_int iteration @ ''.wav'') output_path"

definition batch_output_path :: "path \<Rightarrow> path \<Rightarrow> path" where
  "batch_output_path output_folder relative_path =
     fst (splitext (path_join output_folder relative_path)) @ ''_432Hz.wav''"

section \<open>The tuning corrector\<close>

text \<open>
  What a conversion does besides returning: each \<^verbatim>\<open>print\<close> of
  \<^verbatim>\<open>convert_to_432hz\<close> with the values it shows, each file written
  (\<^verbatim>\<open>audio.export\<close>) and each file renamed (\<^verbatim>\<open>os.rename\<close>), in program
  order. A write or a rename is an event only when it succeeded.
  \<open>Error_converting\<close> is the message of the exception handler of lines 105 to 107.
\<close>

datatype event =
    Could_not_analyze
  | Tuning_info real "real list"
  | Already_below
  | Applying_speed_ratio int real
  | Export path audio
  | Could_not_reanalyze int
  | Post_adjustment real
  | Verification_successful real
  | Rename path path
  | Verification_failed int real
  | Error_converting

text \<open>
  \<^verbatim>\<open>int(x)\<close> of a float truncates towards zero.
\<close>

definition py_int :: "real \<Rightarrow> int" where
  "py_int x = (if x \<ge> 0 then \<lfloor>x\<rfloor> else \<lceil>x\<rceil>)"

text \<open>
  Lines 76 to 78, the speed change: the buffer is given the frame rate
  \<^verbatim>\<open>int(audio.frame_rate * speed_ratio)\<close>, the product rounded as the machine
  rounds it, and converted back to its own frame rate.
\<close>

definition resampled :: "env \<Rightarrow> audio \<Rightarrow> real \<Rightarrow> audio" where
  "resampled E au speed_ratio =
     set_frame_rate E
       (au\<lparr>frame_rate := py_int (fl_mul E (real_of_int (frame_rate au)) speed_ratio)\<rparr>)
       (frame_rate au)"

text \<open>
  Lines 101 to 104, the failure path: the message, then the current buffer is written
  to the output path. When that write raises, the handler of lines 105 to 107 reports
  the error; the result is \<open>False\<close> either way.
\<close>

definition save_last_attempt ::
  "env \<Rightarrow> path \<Rightarrow> int \<Rightarrow> filesystem \<Rightarrow> audio \<Rightarrow> real \<Rightarrow> bool \<times> filesystem \<times> event list" where
  "save_last_attempt E output_path max_iterations fs au dominant =
     (case export E fs output_path au of
        None \<Rightarrow> (False, fs, [Verification_failed max_iterations dominant, Error_converting])
      | Some fs' \<Rightarrow>
          (False, fs', [Verification_failed max_iterations dominant, Export output_path au]))"

text \<open>
  The loop of lines 71 to 99, from the state at the loop head: the files on disk, the
  current buffer \<open>au\<close>, the dominant frequency measured last, and the iteration counter.
  A \<^verbatim>\<open>break\<close> and the end of the loop go to the failure path, a
  \<^verbatim>\<open>return True\<close> ends the run, and an exception (a write or the rename that
  raises) goes to the handler of lines 105 to 107, which returns \<open>False\<close>. A dominant
  frequency of zero cannot reach the loop (it is at least 432 at entry and at least 400
  after a re-analysis); there the source would divide by zero and convert infinity to an
  integer, which raises.
\<close>

function conv_loop ::
  "env \<Rightarrow> path \<Rightarrow> int \<Rightarrow> real \<Rightarrow> filesystem \<Rightarrow> audio \<Rightarrow> real \<Rightarrow> int
     \<Rightarrow> bool \<times> filesystem \<times> event list" where
  "conv_loop E output_path max_iterations tolerance fs au dominant iteration =
     (if iteration < max_iterations then
        if dominant = 0 then (False, fs, [Error_converting])
        else
          let speed_ratio = 432 / dominant;
              au' = resampled E au speed_ratio;
              temp_path = temp_output_path output_path iteration
          in case export E fs temp_path au' of
               None \<Rightarrow>
                 (False, fs,
                  [Applying_speed_ratio (iteration + 1) speed_ratio, Error_converting])
             | Some fs1 \<Rightarrow>
                (case analyze_tuning E fs1 temp_path of
                   None \<Rightarrow>
                     (case save_last_attempt E output_path max_iterations fs1 au' dominant of
                        (ok, fs', evs) \<Rightarrow>
                          (ok, fs',
                           [Applying_speed_ratio (iteration + 1) speed_ratio,
                            Export temp_path au',
                            Could_not_reanalyze (iteration + 1)] @ evs))
                 | Some info \<Rightarrow>
                     if \<bar>dominant_freq info - 432\<bar> \<le> tolerance then
                       (case os_rename E fs1 temp_path output_path of
                          None \<Rightarrow>
                            (False, fs1,
                             [Applying_speed_ratio (iteration + 1) speed_ratio,
                              Export temp_path au',
                              Post_adjustment (dominant_freq info),
                              Verification_successful (dominant_freq info),
                              Error_converting])
                        | Some fs2 \<Rightarrow>
                            (True, fs2,
                             [Applying_speed_ratio (iteration + 1) speed_ratio,
                              Export temp_path au',
                              Post_adjustment (dominant_freq info),
                              Verification_successful (dominant_freq info),
                              Rename temp_path output_path]))
                     else
                       (case conv_loop E output_path max_iterations tolerance fs1 au'
                               (dominant_freq info) (iteration + 1) of
                          (ok, fs', evs) \<Rightarrow>
                            (ok, fs',
                             [Applying_speed_ratio (iteration + 1) speed_ratio,
                              Export temp_path au',
                              Post_adjustment (dominant_freq info)] @ evs)))
      else save_last_attempt E output_path max_iterations fs au dominant)"
  by pat_completeness auto
termination
  by (relation "measure (\<lambda>(E, out, m, tol, fs, au, d, i). nat (m - i))") auto

declare conv_loop.simps [simp del]

text \<open>
  \<^verbatim>\<open>convert_to_432hz(file_path, output_path, max_iterations, tolerance)\<close>, lines 46
  to 107: the returned \<^verbatim>\<open>bool\<close>, the files on disk afterwards, and the events.
\<close>

definition convert_to_432hz ::
  "env \<Rightarrow> filesystem \<Rightarrow> path \<Rightarrow> path \<Rightarrow> int \<Rightarrow> real \<Rightarrow> bool \<times> filesystem \<times> event list" where
  "convert_to_432hz E fs file_path output_path max_iterations tolerance =
     (case analyze_tuning E fs file_path of
        None \<Rightarrow> (False, fs, [Could_not_analyze])
      | Some info \<Rightarrow>
          let dominant = dominant_freq info
          in if dominant < 432 then
               (False, fs, [Tuning_info dominant (harmonics info), Already_below])
             else
               (case load fs file_path of
                  None \<Rightarrow> (False, fs, [Tuning_info dominant (harmonics info), Error_converting])
                | Some au \<Rightarrow>
                   (case conv_loop E output_path max_iterations tolerance fs au dominant 0 of
                      (ok, fs', evs) \<Rightarrow>
                        (ok, fs', Tuning_info dominant (harmonics info) # evs))))"

section \<open>Observations on a run\<close>

text \<open>
  A run of \<open>convert_to_432hz\<close> is observed through its events.
\<close>

fun is_iteration :: "event \<Rightarrow> bool" where
  "is_iteration (Applying_speed_ratio i r) = True"
| "is_iteration _ = False"

text \<open>The number of resampling iterations a run started.\<close>

definition iterations :: "event list \<Rightarrow> nat" where
  "iterations evs = length (filter is_iteration evs)"


text \<open>The audio buffers a run wrote to disk, in order.\<close>

fun exported :: "event list \<Rightarrow> audio list" where
  "exported [] = []"
| "exported (Export p au # evs) = au # exported evs"
| "exported (e # evs) = exported evs"






section \<open>Concrete library instances\<close>

text \<open>
  Instances of the library parameters on which the model can be evaluated. The transform
  is the discrete Fourier transform of a real signal, restricted to the non-negative
  half spectrum, as \<^verbatim>\<open>rfft\<close> computes it; the bin frequencies are those of
  \<^verbatim>\<open>rfftfreq\<close>, \<open>k * (1 / (n * (1 / rate)))\<close>, without rounding; the index sort
  is the stable insertion sort, used below only on magnitudes without ties; files are
  mono already; rate conversion returns the buffer itself for an unchanged rate, as pydub
  does, and otherwise keeps the samples, which is a simplification; products are exact;
  and the operating system refuses nothing.
\<close>

definition dft :: "real list \<Rightarrow> complex list" where
  "dft xs =
     map (\<lambda>k. \<Sum>j<length xs.
                 of_real (xs ! j) * cis (- (2 * pi * real j * real k / real (length xs))))
       [0..<length xs div 2 + 1]"

definition exact_rfftfreq :: "nat \<Rightarrow> int \<Rightarrow> real list" where
  "exact_rfftfreq n rate =
     map (\<lambda>k. real k * (1 / (real n * (1 / real_of_int rate)))) [0..<n div 2 + 1]"

definition argsort_stable :: "real list \<Rightarrow> nat list" where
  "argsort_stable xs = sort_key (\<lambda>i. xs ! i) [0..<length xs]"

definition retag_frame_rate :: "audio \<Rightarrow> int \<Rightarrow> audio" where
  "retag_frame_rate au r = (if r = frame_rate au then au else au\<lparr>frame_rate := r\<rparr>)"

definition small_env :: env where
  "small_env = \<lparr>rfft = dft, rfftfreq = exact_rfftfreq, argsort = argsort_stable,
                 set_channels = (\<lambda>au c. au), set_frame_rate = retag_frame_rate,
                 fl_mul = (*), can_write = (\<lambda>fs p. True),
                 can_rename = (\<lambda>fs src dst. True)\<rparr>"


text \<open>
  Two-sample mono files, whose spectrum has two bins, at 0 Hz and at half the frame rate:
  at 450 Hz, at 432 Hz and at 430 Hz.
\<close>

definition mono_file :: audio where
  "mono_file = \<lparr>frame_rate = 900, samples = [1, 0]\<rparr>"

definition exact_file :: audio where
  "exact_file = \<lparr>frame_rate = 864, samples = [1, 0]\<rparr>"

definition low_file :: audio where
  "low_file = \<lparr>frame_rate = 860, samples = [1, 0]\<rparr>"

text \<open>
  Ten samples at 1000 Hz with the values 2 at index 0 and 1 at index 5: the bins of the
  transform are 3 at even and 1 at odd index, and the bins at 400 Hz (magnitude 3) and
  500 Hz (magnitude 1) lie in the capture band.
\<close>

definition two_tone_file :: audio where
  "two_tone_file = \<lparr>frame_rate = 1000, samples = [2, 0, 0, 0, 0, 1, 0, 0, 0, 0]\<rparr>"

section \<open>Properties of the spectral estimator\<close>

lemma mask_fst:
  "length fs = length vs \<Longrightarrow>
   map snd (filter fst (zip (map P fs) fs)) = map fst (filter (\<lambda>(f, v). P f) (zip fs vs))"
  by (induction fs vs rule: list_induct2) auto

lemma mask_snd:
  "length fs = length vs \<Longrightarrow>
   map snd (filter fst (zip (map P fs) vs)) = map snd (filter (\<lambda>(f, v). P f) (zip fs vs))"
  by (induction fs vs rule: list_induct2) auto

lemma map2_fst_snd:
  "map2 (*) (map fst bins) (map (\<lambda>p. cmod (snd p)) bins) = map (\<lambda>(f, v). f * cmod v) bins"
  by (induction bins) auto

lemma np_average_bins:
  "np_average (map fst bins) (map (\<lambda>p. cmod (snd p)) bins) =
     (if sum_list (map (\<lambda>(f, v). cmod v) bins) = 0 then None else Some (centroid bins))"
proof -
  have e: "map (\<lambda>p. cmod (snd p)) bins = map (\<lambda>(f, v). cmod v) bins"
    by (simp add: case_prod_beta)
  show ?thesis
    unfolding np_average_def centroid_def map2_fst_snd
    by (simp add: e Let_def)
qed

text \<open>
  The two mask selections and the average of the source, in terms of the in-band bins.
\<close>

lemma analyze_samples_bins:
  assumes "smp \<noteq> []" "rate \<noteq> 0"
    and "length (rfftfreq E (length smp) rate) = length (rfft E smp)"
  shows "analyze_samples E smp rate =
     (let bins = band_bins (rfftfreq E (length smp) rate) (rfft E smp)
      in if bins = [] then None
         else if sum_list (map (\<lambda>(f, v). cmod v) bins) = 0 then None
         else case take_idx (map fst bins)
                     (take 5 (argsort E (map (\<lambda>(f, v). - cmod v) bins))) of
                None \<Rightarrow> None
              | Some top5 \<Rightarrow>
                 Some \<lparr>dominant_freq = centroid bins, sample_rate = rate,
                       duration = real (length smp) / real_of_int rate, harmonics = top5\<rparr>)"
proof -
  let ?fs = "rfftfreq E (length smp) rate"
  let ?vs = "rfft E smp"
  let ?P = "\<lambda>f::real. 400 \<le> f \<and> f \<le> 500"
  note len = assms(3)
  have bb: "band_bins ?fs ?vs = filter (\<lambda>(f, v). ?P f) (zip ?fs ?vs)"
    unfolding band_bins_def ..
  have m1: "mask_select (map ?P ?fs) ?vs = Some (map snd (band_bins ?fs ?vs))"
    unfolding mask_select_def bb using len mask_snd [OF len, of ?P] by simp
  have m2: "mask_select (map ?P ?fs) ?fs = Some (map fst (band_bins ?fs ?vs))"
    unfolding mask_select_def bb using mask_fst [OF len, of ?P] by simp
  have neg: "map uminus (map cmod (map snd bins)) = map (\<lambda>(f, v). - cmod v) bins"
    for bins :: "(real \<times> complex) list"
    by (simp add: case_prod_beta)
  have cm: "map cmod (map snd bins) = map (\<lambda>p. cmod (snd p)) bins"
    for bins :: "(real \<times> complex) list"
    by simp
  show ?thesis
    unfolding analyze_samples_def Let_def
    using assms(1,2)
    apply (simp only: if_False m1 m2 option.case neg simp_thms)
    apply (simp only: cm np_average_bins length_map)
    apply (simp split: option.splits)
    done
qed

lemma analyze_samples_length:
  "analyze_samples E smp rate = Some r \<Longrightarrow>
   smp \<noteq> [] \<and> rate \<noteq> 0 \<and> length (rfftfreq E (length smp) rate) = length (rfft E smp)"
  by (auto simp: analyze_samples_def mask_select_def Let_def
           split: if_splits option.splits)

lemma analyze_samples_SomeD:
  assumes "analyze_samples E smp rate = Some info"
  shows "smp \<noteq> [] \<and> rate \<noteq> 0 \<and>
     band_bins (rfftfreq E (length smp) rate) (rfft E smp) \<noteq> [] \<and>
     sum_list (map (\<lambda>(f, v). cmod v) (band_bins (rfftfreq E (length smp) rate) (rfft E smp))) \<noteq> 0 \<and>
     dominant_freq info = centroid (band_bins (rfftfreq E (length smp) rate) (rfft E smp)) \<and>
     sample_rate info = rate \<and>
     duration info = real (length smp) / real_of_int rate \<and>
     take_idx (map fst (band_bins (rfftfreq E (length smp) rate) (rfft E smp)))
       (take 5 (argsort E (map (\<lambda>(f, v). - cmod v)
                             (band_bins (rfftfreq E (length smp) rate) (rfft E smp)))))
       = Some (harmonics info)"
proof -
  from analyze_samples_length [OF assms]
  have a: "smp \<noteq> []" and b: "rate \<noteq> 0"
    and c: "length (rfftfreq E (length smp) rate) = length (rfft E smp)" by simp_all
  from assms show ?thesis
    unfolding analyze_samples_bins [OF a b c] Let_def
    using a b by (auto split: if_splits option.splits)
qed

lemma load_Some: "(load fs p = Some au) = (fs p = Some (File au))"
  by (auto simp: load_def split: option.splits entry.splits)

lemma analyze_tuning_SomeD:
  assumes "analyze_tuning E fs file_path = Some info"
  shows "\<exists>loaded. fs file_path = Some (File loaded) \<and>
     analyze_samples E (samples (set_channels E loaded 1)) (frame_rate (set_channels E loaded 1))
       = Some info"
  using assms by (auto simp: analyze_tuning_def Let_def load_Some split: option.splits)

lemma band_bins_in_band:
  "(f, v) \<in> set (band_bins freqs vals) \<Longrightarrow> 400 \<le> f \<and> f \<le> 500"
  by (auto simp: band_bins_def)

lemma weighted_sum_bounds:
  assumes "\<And>f v. (f, v) \<in> set bins \<Longrightarrow> lo \<le> f \<and> f \<le> hi"
  shows "lo * sum_list (map (\<lambda>(f, v). cmod v) bins) \<le> sum_list (map (\<lambda>(f, v). f * cmod v) bins)
       \<and> sum_list (map (\<lambda>(f, v). f * cmod v) bins) \<le> hi * sum_list (map (\<lambda>(f, v). cmod v) bins)"
  using assms
proof (induction bins)
  case Nil
  then show ?case by simp
next
  case (Cons p bins)
  obtain f v where p: "p = (f, v)" by (cases p)
  have fb: "lo \<le> f \<and> f \<le> hi" using Cons.prems [of f v] p by simp
  have ih: "lo * sum_list (map (\<lambda>(f, v). cmod v) bins) \<le> sum_list (map (\<lambda>(f, v). f * cmod v) bins)
       \<and> sum_list (map (\<lambda>(f, v). f * cmod v) bins) \<le> hi * sum_list (map (\<lambda>(f, v). cmod v) bins)"
    by (rule Cons.IH) (use Cons.prems in auto)
  have "lo * cmod v \<le> f * cmod v" "f * cmod v \<le> hi * cmod v"
    using fb by (simp_all add: mult_right_mono)
  with ih show ?case by (simp add: p algebra_simps)
qed

lemma weights_nonneg: "0 \<le> sum_list (map (\<lambda>(f, v). cmod v) bins)"
  by (induction bins) auto

lemma centroid_bounds:
  assumes "\<And>f v. (f, v) \<in> set bins \<Longrightarrow> lo \<le> f \<and> f \<le> hi"
    and "sum_list (map (\<lambda>(f, v). cmod v) bins) \<noteq> 0"
  shows "lo \<le> centroid bins \<and> centroid bins \<le> hi"
proof -
  let ?W = "sum_list (map (\<lambda>(f, v). cmod v) bins)"
  have pos: "0 < ?W" using weights_nonneg [of bins] assms(2) by simp
  from weighted_sum_bounds [of bins lo hi] assms(1)
  show ?thesis
    unfolding centroid_def using pos by (simp add: pos_le_divide_eq pos_divide_le_eq mult.commute)
qed

lemma take_idx_SomeD:
  "take_idx xs idx = Some ys \<Longrightarrow> length ys = length idx \<and> set ys \<subseteq> set xs"
  by (auto simp: take_idx_def list_all_iff split: if_splits)


lemma cis_minus_pi: "cis (- pi) = - 1"
  by (simp add: complex_eq_iff)

lemma cis_minus_npi: "cis (- (real k * pi)) = (- 1) ^ k"
  by (simp add: complex_eq_iff cos_npi sin_npi Re_power_real Im_power_real)

lemma dft_two: "dft [a, b] = [of_real (a + b), of_real (a - b)]"
  by (simp add: dft_def lessThan_Suc numeral_2_eq_2 upt_rec cis_minus_pi)

lemma dft_bin_pair:
  "(\<Sum>j<10. of_real ([a, 0, 0, 0, 0, b, 0, 0, 0, 0] ! j)
       * cis (- (2 * pi * real j * real k / real (10::nat))))
     = of_real a + of_real b * (- 1) ^ k"
proof -
  have e: "2 * pi * 5 * real k / 10 = real k * pi" by simp
  have "(\<Sum>j<10. of_real ([a, 0, 0, 0, 0, b, 0, 0, 0, 0] ! j)
       * cis (- (2 * pi * real j * real k / real (10::nat))))
     = of_real a + of_real b * cis (- (2 * pi * 5 * real k / 10))"
    by (simp add: numeral_eq_Suc lessThan_Suc)
  then show ?thesis
    unfolding e cis_minus_npi .
qed


lemma dft_pair:
  "dft [a, 0, 0, 0, 0, b, 0, 0, 0, 0] =
     [of_real a + of_real b, of_real a - of_real b, of_real a + of_real b,
      of_real a - of_real b, of_real a + of_real b, of_real a - of_real b]"
proof -
  have l: "length [a, 0, 0, 0, 0, b, 0, 0, 0, 0] = 10" by simp
  have u: "[0..<10 div 2 + 1] = [0, 1, 2, 3, 4, 5]" by (simp add: upt_rec)
  show ?thesis
    unfolding dft_def l u list.map dft_bin_pair by simp
qed

lemma exact_rfftfreq_two:
  "rate \<noteq> 0 \<Longrightarrow> exact_rfftfreq 2 rate = [0, real_of_int rate / 2]"
  by (simp add: exact_rfftfreq_def upt_rec)

lemma exact_rfftfreq_ten: "exact_rfftfreq 10 1000 = [0, 100, 200, 300, 400, 500]"
  by (simp add: exact_rfftfreq_def upt_rec)

lemma band_bins_two:
  "band_bins [0, real_of_int rate / 2] [u, v] =
     (if 800 \<le> rate \<and> rate \<le> 1000 then [(real_of_int rate / 2, v)] else [])"
  by (auto simp: band_bins_def)

lemma band_bins_ten:
  "band_bins [0, 100, 200, 300, 400, 500] [v0, v1, v2, v3, v4, v5] = [(400, v4), (500, v5)]"
  by (simp add: band_bins_def)

lemma take_idx_single: "take_idx [x] (take 5 (argsort_stable [y])) = Some [x]"
  by (simp add: take_idx_def argsort_stable_def)

lemma small_env_simps:
  "rfft small_env = dft" "rfftfreq small_env = exact_rfftfreq"
  "argsort small_env = argsort_stable" "set_channels small_env au c = au"
  "set_frame_rate small_env = retag_frame_rate" "fl_mul small_env = (*)"
  "can_write small_env fs p" "can_rename small_env fs src dst"
  by (simp_all add: small_env_def)

lemma analyze_two:
  assumes r: "rfft E = dft" and q: "rfftfreq E = exact_rfftfreq" and s: "argsort E = argsort_stable"
  shows "analyze_samples E [a, b] rate =
     (if 800 \<le> rate \<and> rate \<le> 1000 \<and> a \<noteq> b
      then Some \<lparr>dominant_freq = real_of_int rate / 2, sample_rate = rate,
                 duration = 2 / real_of_int rate, harmonics = [real_of_int rate / 2]\<rparr>
      else None)"
proof (cases "rate = 0")
  case True
  then show ?thesis by (simp add: analyze_samples_def)
next
  case False
  have n: "length [a, b] = 2" by simp
  have v: "rfft E [a, b] = [of_real (a + b), of_real (a - b)]"
    unfolding r by (rule dft_two)
  have f: "rfftfreq E (length [a, b]) rate = [0, real_of_int rate / 2]"
    unfolding q n by (rule exact_rfftfreq_two [OF False])
  have l: "length (rfftfreq E (length [a, b]) rate) = length (rfft E [a, b])"
    unfolding f v by simp
  have ne: "[a, b] \<noteq> []" by simp
  show ?thesis
    unfolding analyze_samples_bins [OF ne False l] f v s band_bins_two
    by (simp add: centroid_def take_idx_single Let_def)
qed

lemma analyze_tuning_two:
  assumes "rfft E = dft" and "rfftfreq E = exact_rfftfreq" and "argsort E = argsort_stable"
    and c: "set_channels E = (\<lambda>au c. au)"
    and f: "fs p = Some (File \<lparr>frame_rate = rate, samples = [a, b]\<rparr>)"
  shows "analyze_tuning E fs p =
     (if 800 \<le> rate \<and> rate \<le> 1000 \<and> a \<noteq> b
      then Some \<lparr>dominant_freq = real_of_int rate / 2, sample_rate = rate,
                 duration = 2 / real_of_int rate, harmonics = [real_of_int rate / 2]\<rparr>
      else None)"
proof -
  have l: "load fs p = Some \<lparr>frame_rate = rate, samples = [a, b]\<rparr>"
    using f by (simp add: load_Some)
  show ?thesis
    unfolding analyze_tuning_def l option.case Let_def c
    by (simp add: analyze_two [OF assms(1,2,3)])
qed

lemma small_env_channels: "set_channels small_env = (\<lambda>au c. au)"
  by (simp add: small_env_def)

lemmas analyze_tuning_small =
  analyze_tuning_two [of small_env, OF small_env_simps(1,2,3) small_env_channels]


lemma two_tone_bins:
  assumes r: "rfft E = dft" and q: "rfftfreq E = exact_rfftfreq"
    and c: "set_channels E = (\<lambda>au c. au)"
  shows "bins_of E (set_channels E two_tone_file 1) = [(400, 3), (500, 1)]"
proof -
  have x: "set_channels E two_tone_file 1 = two_tone_file" unfolding c ..
  have s: "samples two_tone_file = [2, 0, 0, 0, 0, 1, 0, 0, 0, 0]"
    and f: "frame_rate two_tone_file = 1000"
    by (simp_all add: two_tone_file_def)
  have n: "length [2, 0, 0, 0, 0, 1, 0, 0, 0, 0 :: real] = 10" by simp
  show ?thesis
    unfolding bins_of_def x s f n r q dft_pair exact_rfftfreq_ten band_bins_ten
    by simp
qed

lemma two_tone_report:
  assumes r: "rfft E = dft" and q: "rfftfreq E = exact_rfftfreq"
    and c: "set_channels E = (\<lambda>au c. au)" and a: "argsort E = argsort_stable"
  shows "analyze_tuning E [p \<mapsto> File two_tone_file] p =
     Some \<lparr>dominant_freq = 425, sample_rate = 1000, duration = 10 / 1000,
           harmonics = [400, 500]\<rparr>"
proof -
  let ?s = "[2, 0, 0, 0, 0, 1, 0, 0, 0, 0 :: real]"
  have ne: "?s \<noteq> []" and rz: "(1000::int) \<noteq> 0" by simp_all
  have n: "length ?s = 10" by simp
  have v: "rfft E ?s = [3, 1, 3, 1, 3, 1]"
    unfolding r dft_pair by simp
  have f: "rfftfreq E (length ?s) 1000 = [0, 100, 200, 300, 400, 500]"
    unfolding q n by (rule exact_rfftfreq_ten)
  have l: "length (rfftfreq E (length ?s) 1000) = length (rfft E ?s)"
    unfolding f v by simp
  have so: "argsort_stable [- 3, - 1] = [0, 1]"
    by (simp add: argsort_stable_def upt_rec)
  have "analyze_samples E ?s 1000 =
     Some \<lparr>dominant_freq = 425, sample_rate = 1000, duration = 10 / 1000,
           harmonics = [400, 500]\<rparr>"
    unfolding analyze_samples_bins [OF ne rz l] f v band_bins_ten a
    by (simp add: centroid_def Let_def so take_idx_def)
  then show ?thesis
    unfolding analyze_tuning_def c by (simp add: two_tone_file_def load_def)
qed

text \<open>
  Claim C1. Whenever \<open>analyze_tuning\<close> returns a report, the file could be loaded and
  the reported dominant frequency is the magnitude-weighted average
  \<open>sum(freq_i * |mag_i|) / sum(|mag_i|)\<close> over exactly the bins of the half spectrum
  whose frequency lies in the inclusive range from 400 Hz to 500 Hz. The frequency of a
  bin is the one \<^verbatim>\<open>rfftfreq\<close> returns for it, which the source compares with
  400 and 500. The source selects with two boolean masks and calls
  \<^verbatim>\<open>np.average\<close>; the theorem relates that to the specification's
  \<open>centroid\<close> of the in-band bins.
\<close>

theorem dominant_freq_is_band_centroid:
  assumes "analyze_tuning E fs file_path = Some info"
  shows "\<exists>loaded. fs file_path = Some (File loaded) \<and>
     dominant_freq info = centroid (bins_of E (set_channels E loaded 1))"
  using analyze_tuning_SomeD [OF assms] analyze_samples_SomeD
  unfolding bins_of_def by blast

theorem dominant_freq_is_band_centroid_witness:
  "analyze_tuning small_env [''a.wav'' \<mapsto> File two_tone_file] ''a.wav''
     = Some \<lparr>dominant_freq = 425, sample_rate = 1000, duration = 10 / 1000,
             harmonics = [400, 500]\<rparr>
   \<and> bins_of small_env (set_channels small_env two_tone_file 1) = [(400, 3), (500, 1)]
   \<and> centroid [(400, 3), (500, 1)] = 425"
proof -
  note h = two_tone_report [of small_env "''a.wav''",
             OF small_env_simps(1,2) small_env_channels small_env_simps(3)]
  note b = two_tone_bins [of small_env, OF small_env_simps(1,2) small_env_channels]
  from dominant_freq_is_band_centroid [OF h]
  have "centroid (bins_of small_env (set_channels small_env two_tone_file 1)) = 425"
    by simp
  with h b show ?thesis by simp
qed

text \<open>
  Claim C10. Every report has its dominant frequency within 400 Hz and 500 Hz, at most
  five harmonics, each within 400 Hz and 500 Hz, and as duration the number of mono
  samples divided by the sample rate.
\<close>

theorem report_within_band:
  assumes "analyze_tuning E fs file_path = Some info"
  shows "400 \<le> dominant_freq info \<and> dominant_freq info \<le> 500
     \<and> length (harmonics info) \<le> 5
     \<and> list_all (\<lambda>h. 400 \<le> h \<and> h \<le> 500) (harmonics info)
     \<and> (\<exists>loaded. fs file_path = Some (File loaded)
          \<and> duration info = real (length (samples (set_channels E loaded 1)))
                              / real_of_int (frame_rate (set_channels E loaded 1)))"
proof -
  from analyze_tuning_SomeD [OF assms] obtain loaded where
    l: "fs file_path = Some (File loaded)" and
    s: "analyze_samples E (samples (set_channels E loaded 1))
            (frame_rate (set_channels E loaded 1)) = Some info" by auto
  let ?bins = "bins_of E (set_channels E loaded 1)"
  note d = analyze_samples_SomeD [OF s, folded bins_of_def]
  have c: "400 \<le> centroid ?bins \<and> centroid ?bins \<le> 500"
    using centroid_bounds [of ?bins 400 500] band_bins_in_band d
    unfolding bins_of_def by blast
  from d have t: "take_idx (map fst ?bins)
       (take 5 (argsort E (map (\<lambda>(f, v). - cmod v) ?bins))) = Some (harmonics info)"
    by simp
  from take_idx_SomeD [OF t]
  have len: "length (harmonics info) \<le> 5" and sub: "set (harmonics info) \<subseteq> set (map fst ?bins)"
    by simp_all
  have "list_all (\<lambda>h. 400 \<le> h \<and> h \<le> 500) (harmonics info)"
    unfolding list_all_iff using sub band_bins_in_band unfolding bins_of_def by fastforce
  with c d len l show ?thesis by auto
qed

theorem report_within_band_witness:
  "analyze_tuning small_env [''a.wav'' \<mapsto> File mono_file] ''a.wav''
     = Some \<lparr>dominant_freq = 450, sample_rate = 900, duration = 2 / 900, harmonics = [450]\<rparr>
   \<and> (400::real) \<le> 450 \<and> (450::real) \<le> 500 \<and> length [450::real] \<le> 5
   \<and> list_all (\<lambda>h. 400 \<le> h \<and> h \<le> 500) [450::real]
   \<and> (2 / 900 :: real) = real (length (samples (set_channels small_env mono_file 1)))
                              / real_of_int (frame_rate (set_channels small_env mono_file 1))"
proof -
  have h: "analyze_tuning small_env [''a.wav'' \<mapsto> File mono_file] ''a.wav''
     = Some \<lparr>dominant_freq = 450, sample_rate = 900, duration = 2 / 900, harmonics = [450]\<rparr>"
    by (simp add: analyze_tuning_small [of _ _ 900 1 0] mono_file_def)
  from report_within_band [OF h] show ?thesis
    using h by (simp add: small_env_simps mono_file_def)
qed

section \<open>Properties of the tuning corrector\<close>

lemma iterations_simps [simp]:
  "iterations [] = 0"
  "iterations (e # evs) = (if is_iteration e then Suc (iterations evs) else iterations evs)"
  "iterations (xs @ ys) = iterations xs + iterations ys"
  by (simp_all add: iterations_def)

lemma exported_append [simp]: "exported (xs @ ys) = exported xs @ exported ys"
  by (induction xs rule: exported.induct) auto

text \<open>
  Induction over the runs of the loop: a property of the state at the loop head and of
  the result holds for every run if it holds for the ways a run ends (iterations
  exhausted, division by zero, a scratch file that cannot be written, a re-analysis
  without report, convergence with a rename that raises or succeeds) and is passed on by
  an iteration that does not converge.
\<close>

lemma conv_loop_rule [case_names exhaust zero unwritable abort unrenamed promoted step]:
  assumes exhaust: "\<And>fs au d i. \<not> i < m \<Longrightarrow> P fs au d i (save_last_attempt E out m fs au d)"
    and zero: "\<And>fs au d i. i < m \<Longrightarrow> d = 0 \<Longrightarrow> P fs au d i (False, fs, [Error_converting])"
    and unwritable: "\<And>fs au d i. i < m \<Longrightarrow> d \<noteq> 0 \<Longrightarrow>
      export E fs (temp_output_path out i) (resampled E au (432 / d)) = None \<Longrightarrow>
      P fs au d i (False, fs, [Applying_speed_ratio (i + 1) (432 / d), Error_converting])"
    and abort: "\<And>fs au d i fs1 ok fs' evs. i < m \<Longrightarrow> d \<noteq> 0 \<Longrightarrow>
      export E fs (temp_output_path out i) (resampled E au (432 / d)) = Some fs1 \<Longrightarrow>
      analyze_tuning E fs1 (temp_output_path out i) = None \<Longrightarrow>
      save_last_attempt E out m fs1 (resampled E au (432 / d)) d = (ok, fs', evs) \<Longrightarrow>
      P fs au d i
        (ok, fs',
         [Applying_speed_ratio (i + 1) (432 / d),
          Export (temp_output_path out i) (resampled E au (432 / d)),
          Could_not_reanalyze (i + 1)] @ evs)"
    and unrenamed: "\<And>fs au d i fs1 info. i < m \<Longrightarrow> d \<noteq> 0 \<Longrightarrow>
      export E fs (temp_output_path out i) (resampled E au (432 / d)) = Some fs1 \<Longrightarrow>
      analyze_tuning E fs1 (temp_output_path out i) = Some info \<Longrightarrow>
      \<bar>dominant_freq info - 432\<bar> \<le> tol \<Longrightarrow>
      os_rename E fs1 (temp_output_path out i) out = None \<Longrightarrow>
      P fs au d i
        (False, fs1,
         [Applying_speed_ratio (i + 1) (432 / d),
          Export (temp_output_path out i) (resampled E au (432 / d)),
          Post_adjustment (dominant_freq info),
          Verification_successful (dominant_freq info),
          Error_converting])"
    and promoted: "\<And>fs au d i fs1 info fs2. i < m \<Longrightarrow> d \<noteq> 0 \<Longrightarrow>
      export E fs (temp_output_path out i) (resampled E au (432 / d)) = Some fs1 \<Longrightarrow>
      analyze_tuning E fs1 (temp_output_path out i) = Some info \<Longrightarrow>
      \<bar>dominant_freq info - 432\<bar> \<le> tol \<Longrightarrow>
      os_rename E fs1 (temp_output_path out i) out = Some fs2 \<Longrightarrow>
      P fs au d i
        (True, fs2,
         [Applying_speed_ratio (i + 1) (432 / d),
          Export (temp_output_path out i) (resampled E au (432 / d)),
          Post_adjustment (dominant_freq info),
          Verification_successful (dominant_freq info),
          Rename (temp_output_path out i) out])"
    and step: "\<And>fs au d i fs1 info ok fs' evs. i < m \<Longrightarrow> d \<noteq> 0 \<Longrightarrow>
      export E fs (temp_output_path out i) (resampled E au (432 / d)) = Some fs1 \<Longrightarrow>
      analyze_tuning E fs1 (temp_output_path out i) = Some info \<Longrightarrow>
      \<not> \<bar>dominant_freq info - 432\<bar> \<le> tol \<Longrightarrow>
      conv_loop E out m tol fs1 (resampled E au (432 / d)) (dominant_freq info) (i + 1)
        = (ok, fs', evs) \<Longrightarrow>
      P fs1 (resampled E au (432 / d)) (dominant_freq info) (i + 1) (ok, fs', evs) \<Longrightarrow>
      P fs au d i
        (ok, fs',
         [Applying_speed_ratio (i + 1) (432 / d),
          Export (temp_output_path out i) (resampled E au (432 / d)),
          Post_adjustment (dominant_freq info)] @ evs)"
  shows "P fs au d i (conv_loop E out m tol fs au d i)"
  using assms
proof (induction E out m tol fs au d i rule: conv_loop.induct)
  case (1 E out m tol fs au d i)
  let ?au = "resampled E au (432 / d)"
  let ?tp = "temp_output_path out i"
  show ?case
  proof (cases "i < m")
    case False
    have eq: "conv_loop E out m tol fs au d i = save_last_attempt E out m fs au d"
      using False by (subst conv_loop.simps) simp
    show ?thesis unfolding eq by (rule "1.prems"(1) [OF False])
  next
    case a: True
    show ?thesis
    proof (cases "d = 0")
      case True
      have eq: "conv_loop E out m tol fs au d i = (False, fs, [Error_converting])"
        using a True by (subst conv_loop.simps) simp
      show ?thesis unfolding eq by (rule "1.prems"(2) [OF a True])
    next
      case b: False
      show ?thesis
      proof (cases "export E fs ?tp ?au")
        case None
        have eq: "conv_loop E out m tol fs au d i =
           (False, fs, [Applying_speed_ratio (i + 1) (432 / d), Error_converting])"
          using a b None by (subst conv_loop.simps) (simp add: Let_def)
        show ?thesis unfolding eq by (rule "1.prems"(3) [OF a b None])
      next
        case x: (Some fs1)
        show ?thesis
        proof (cases "analyze_tuning E fs1 ?tp")
          case None
          obtain ok fs' evs where r:
            "save_last_attempt E out m fs1 ?au d = (ok, fs', evs)"
            by (cases "save_last_attempt E out m fs1 ?au d") auto
          have eq: "conv_loop E out m tol fs au d i =
             (ok, fs',
              [Applying_speed_ratio (i + 1) (432 / d), Export ?tp ?au,
               Could_not_reanalyze (i + 1)] @ evs)"
            using a b x None r by (subst conv_loop.simps) (simp add: Let_def)
          show ?thesis unfolding eq by (rule "1.prems"(4) [OF a b x None r])
        next
          case (Some info)
          show ?thesis
          proof (cases "\<bar>dominant_freq info - 432\<bar> \<le> tol")
            case w: True
            show ?thesis
            proof (cases "os_rename E fs1 ?tp out")
              case None
              have eq: "conv_loop E out m tol fs au d i =
                 (False, fs1,
                  [Applying_speed_ratio (i + 1) (432 / d), Export ?tp ?au,
                   Post_adjustment (dominant_freq info),
                   Verification_successful (dominant_freq info), Error_converting])"
                using a b x Some w None by (subst conv_loop.simps) (simp add: Let_def)
              show ?thesis unfolding eq by (rule "1.prems"(5) [OF a b x Some w None])
            next
              case y: (Some fs2)
              have eq: "conv_loop E out m tol fs au d i =
                 (True, fs2,
                  [Applying_speed_ratio (i + 1) (432 / d), Export ?tp ?au,
                   Post_adjustment (dominant_freq info),
                   Verification_successful (dominant_freq info), Rename ?tp out])"
                using a b x Some w y by (subst conv_loop.simps) (simp add: Let_def)
              show ?thesis unfolding eq by (rule "1.prems"(6) [OF a b x Some w y])
            qed
          next
            case w: False
            obtain ok fs' evs where r:
              "conv_loop E out m tol fs1 ?au (dominant_freq info) (i + 1) = (ok, fs', evs)"
              by (cases "conv_loop E out m tol fs1 ?au (dominant_freq info) (i + 1)") auto
            have ih: "P fs1 ?au (dominant_freq info) (i + 1)
                        (conv_loop E out m tol fs1 ?au (dominant_freq info) (i + 1))"
              using "1.IH" [OF a b refl refl refl x Some w] "1.prems" by blast
            have eq: "conv_loop E out m tol fs au d i =
               (ok, fs',
                [Applying_speed_ratio (i + 1) (432 / d), Export ?tp ?au,
                 Post_adjustment (dominant_freq info)] @ evs)"
              using a b x Some w r by (subst conv_loop.simps) (simp add: Let_def)
            show ?thesis unfolding eq by (rule "1.prems"(7) [OF a b x Some w r ih [unfolded r]])
          qed
        qed
      qed
    qed
  qed
qed

lemma save_last_attempt_cases:
  obtains (written) fs' where "export E fs out au = Some fs'"
      "save_last_attempt E out m fs au d
         = (False, fs', [Verification_failed m d, Export out au])"
  | (refused) "export E fs out au = None"
      "save_last_attempt E out m fs au d
         = (False, fs, [Verification_failed m d, Error_converting])"
  by (cases "export E fs out au") (auto simp: save_last_attempt_def)





text \<open>The runs of the model on the small files.\<close>

lemma resampled_small:
  "resampled small_env \<lparr>frame_rate = r, samples = s\<rparr> ratio = \<lparr>frame_rate = r, samples = s\<rparr>"
  by (simp add: resampled_def small_env_def retag_frame_rate_def)

lemma export_small: "fs p \<noteq> Some Dir \<Longrightarrow> export small_env fs p au = Some (fs(p \<mapsto> File au))"
  by (simp add: export_def small_env_def)

lemma temp_path_0: "temp_output_path ''out.wav'' 0 = ''out_temp_0.wav''"
  by (simp add: temp_output_path_def str_int_def digit_char_def)

lemma exact_report:
  "fs ''in.wav'' = Some (File exact_file) \<Longrightarrow>
   analyze_tuning small_env fs ''in.wav''
     = Some \<lparr>dominant_freq = 432, sample_rate = 864, duration = 2 / 864, harmonics = [432]\<rparr>"
  by (simp add: analyze_tuning_small [of _ _ 864 1 0] exact_file_def)

lemma low_report:
  "analyze_tuning small_env [''in.wav'' \<mapsto> File low_file] ''in.wav''
     = Some \<lparr>dominant_freq = 430, sample_rate = 860, duration = 2 / 860, harmonics = [430]\<rparr>"
  by (simp add: analyze_tuning_small [of _ _ 860 1 0] low_file_def)

lemma run_exact:
  "convert_to_432hz small_env [''in.wav'' \<mapsto> File exact_file] ''in.wav'' ''out.wav'' 3 (1/2) =
     (True,
      [''in.wav'' \<mapsto> File exact_file, ''out_temp_0.wav'' \<mapsto> File exact_file]
        (''out_temp_0.wav'' := None, ''out.wav'' \<mapsto> File exact_file),
      [Tuning_info 432 [432], Applying_speed_ratio 1 1, Export ''out_temp_0.wav'' exact_file,
       Post_adjustment 432, Verification_successful 432, Rename ''out_temp_0.wav'' ''out.wav''])"
  unfolding convert_to_432hz_def
  apply (simp add: exact_report Let_def load_def)
  apply (subst conv_loop.simps)
  apply (simp add: Let_def exact_file_def resampled_small temp_path_0 export_small
                   analyze_tuning_small [of _ _ 864 1 0] os_rename_def small_env_simps)
  done


lemma run_dir:
  "convert_to_432hz small_env [''in.wav'' \<mapsto> File exact_file, ''out.wav'' \<mapsto> Dir]
     ''in.wav'' ''out.wav'' 3 (1/2) =
     (False,
      [''in.wav'' \<mapsto> File exact_file, ''out.wav'' \<mapsto> Dir,
       ''out_temp_0.wav'' \<mapsto> File exact_file],
      [Tuning_info 432 [432], Applying_speed_ratio 1 1, Export ''out_temp_0.wav'' exact_file,
       Post_adjustment 432, Verification_successful 432, Error_converting])"
  unfolding convert_to_432hz_def
  apply (simp add: exact_report Let_def load_def)
  apply (subst conv_loop.simps)
  apply (simp add: Let_def exact_file_def resampled_small temp_path_0 export_small
                   analyze_tuning_small [of _ _ 864 1 0] os_rename_def small_env_simps)
  done







text \<open>
  The ways through \<open>convert_to_432hz\<close>: no report, tuning below 432 Hz, the source
  file cannot be loaded again, and the loop.
\<close>

lemma convert_cases [case_names unavailable skipped unloadable looped]:
  obtains
    (unavailable) "analyze_tuning E fs file_path = None"
      "convert_to_432hz E fs file_path out m tol = (False, fs, [Could_not_analyze])"
  | (skipped) info where "analyze_tuning E fs file_path = Some info" "dominant_freq info < 432"
      "convert_to_432hz E fs file_path out m tol =
         (False, fs, [Tuning_info (dominant_freq info) (harmonics info), Already_below])"
  | (unloadable) info where "analyze_tuning E fs file_path = Some info"
      "\<not> dominant_freq info < 432" "load fs file_path = None"
      "convert_to_432hz E fs file_path out m tol =
         (False, fs, [Tuning_info (dominant_freq info) (harmonics info), Error_converting])"
  | (looped) info au ok fs' evs where "analyze_tuning E fs file_path = Some info"
      "\<not> dominant_freq info < 432" "load fs file_path = Some au"
      "conv_loop E out m tol fs au (dominant_freq info) 0 = (ok, fs', evs)"
      "convert_to_432hz E fs file_path out m tol =
         (ok, fs', Tuning_info (dominant_freq info) (harmonics info) # evs)"
proof (cases "analyze_tuning E fs file_path")
  case None
  then show ?thesis using unavailable by (simp add: convert_to_432hz_def)
next
  case (Some info)
  show ?thesis
  proof (cases "dominant_freq info < 432")
    case True
    then show ?thesis using skipped Some by (simp add: convert_to_432hz_def)
  next
    case nb: False
    show ?thesis
    proof (cases "load fs file_path")
      case None
      then show ?thesis using unloadable Some nb by (simp add: convert_to_432hz_def)
    next
      case au: (Some au)
      obtain ok fs' evs where r:
        "conv_loop E out m tol fs au (dominant_freq info) 0 = (ok, fs', evs)"
        by (cases "conv_loop E out m tol fs au (dominant_freq info) 0") auto
      show ?thesis
        using looped [OF Some nb au r] Some nb au r by (simp add: convert_to_432hz_def)
    qed
  qed
qed


text \<open>
  Claim C3 as stated says that a source measured at 432 Hz or below is left alone. The
  guard of the source is \<^verbatim>\<open>dominant_freq < 432\<close>: a file measured at exactly
  432 Hz enters the loop, is resampled with ratio 1, written to the scratch path, renamed
  to the output path, and the call returns \<open>True\<close>.
\<close>

theorem at_432_is_converted_counterexample:
  "analyze_tuning small_env [''in.wav'' \<mapsto> File exact_file] ''in.wav''
     = Some \<lparr>dominant_freq = 432, sample_rate = 864, duration = 2 / 864, harmonics = [432]\<rparr>
   \<and> dominant_freq \<lparr>dominant_freq = 432, sample_rate = 864, duration = 2 / 864,
                      harmonics = [432]\<rparr> \<le> 432
   \<and> fst (convert_to_432hz small_env [''in.wav'' \<mapsto> File exact_file]
             ''in.wav'' ''out.wav'' 3 (1/2)) = True
   \<and> snd (snd (convert_to_432hz small_env [''in.wav'' \<mapsto> File exact_file]
                  ''in.wav'' ''out.wav'' 3 (1/2)))
       = [Tuning_info 432 [432], Applying_speed_ratio 1 1, Export ''out_temp_0.wav'' exact_file,
          Post_adjustment 432, Verification_successful 432, Rename ''out_temp_0.wav'' ''out.wav'']
   \<and> fst (snd (convert_to_432hz small_env [''in.wav'' \<mapsto> File exact_file]
                  ''in.wav'' ''out.wav'' 3 (1/2)))
         ''out.wav'' = Some (File exact_file)"
  by (simp add: exact_report run_exact)

text \<open>
  Claim C3, amended. For every source file whose initially measured dominant frequency
  is strictly below 432 Hz, \<open>convert_to_432hz\<close> returns \<open>False\<close> ("not applied"),
  leaves every file as it was (no write to the output path or to a scratch path), and
  does nothing but report the measurement and the decision.
\<close>

theorem below_432_not_applied:
  assumes "analyze_tuning E fs file_path = Some info" and "dominant_freq info < 432"
  shows "convert_to_432hz E fs file_path output_path max_iterations tolerance
           = (False, fs, [Tuning_info (dominant_freq info) (harmonics info), Already_below])"
  using assms by (simp add: convert_to_432hz_def)

theorem below_432_not_applied_witness:
  "analyze_tuning small_env [''in.wav'' \<mapsto> File low_file] ''in.wav''
     = Some \<lparr>dominant_freq = 430, sample_rate = 860, duration = 2 / 860, harmonics = [430]\<rparr>
   \<and> (430::real) < 432
   \<and> convert_to_432hz small_env [''in.wav'' \<mapsto> File low_file] ''in.wav'' ''out.wav'' 3 (1/2)
       = (False, [''in.wav'' \<mapsto> File low_file], [Tuning_info 430 [430], Already_below])"
proof -
  have b: "dominant_freq \<lparr>dominant_freq = 430, sample_rate = 860, duration = 2 / 860,
                           harmonics = [430]\<rparr> < 432" by simp
  from below_432_not_applied [OF low_report b, of "''out.wav''" 3 "1/2"]
  show ?thesis using low_report by simp
qed




lemma export_SomeD: "export E fs p au = Some fs1 \<Longrightarrow> fs1 = fs(p \<mapsto> File au)"
  by (auto simp: export_def split: if_splits)

lemma os_rename_file:
  assumes "os_rename E (fs(src \<mapsto> File au)) src dst = Some fs2"
  shows "fs2 dst = Some (File au) \<and> (src \<noteq> dst \<longrightarrow> fs2 src = None)"
  using assms by (auto simp: os_rename_def split: if_splits)

lemma conv_loop_converged:
  "\<forall>pre f post. snd (snd (conv_loop E out m tol fs au d i)) = pre @ Post_adjustment f # post
      \<and> \<bar>f - 432\<bar> \<le> tol \<longrightarrow>
     (\<exists>pre0 cand.
        pre = pre0 @ [Export (temp_output_path out (i + int (iterations pre) - 1)) cand]
        \<and> ((post = [Verification_successful f,
                     Rename (temp_output_path out (i + int (iterations pre) - 1)) out]
             \<and> fst (conv_loop E out m tol fs au d i)
             \<and> fst (snd (conv_loop E out m tol fs au d i)) out = Some (File cand)
             \<and> (temp_output_path out (i + int (iterations pre) - 1) \<noteq> out \<longrightarrow>
                  fst (snd (conv_loop E out m tol fs au d i))
                    (temp_output_path out (i + int (iterations pre) - 1)) = None))
           \<or> (post = [Verification_successful f, Error_converting]
               \<and> \<not> fst (conv_loop E out m tol fs au d i)
               \<and> fst (snd (conv_loop E out m tol fs au d i))
                    (temp_output_path out (i + int (iterations pre) - 1)) = Some (File cand))))"
proof (rule conv_loop_rule [where P = "\<lambda>fs au d i r.
     \<forall>pre f post. snd (snd r) = pre @ Post_adjustment f # post \<and> \<bar>f - 432\<bar> \<le> tol \<longrightarrow>
     (\<exists>pre0 cand.
        pre = pre0 @ [Export (temp_output_path out (i + int (iterations pre) - 1)) cand]
        \<and> ((post = [Verification_successful f,
                     Rename (temp_output_path out (i + int (iterations pre) - 1)) out]
             \<and> fst r
             \<and> fst (snd r) out = Some (File cand)
             \<and> (temp_output_path out (i + int (iterations pre) - 1) \<noteq> out \<longrightarrow>
                  fst (snd r) (temp_output_path out (i + int (iterations pre) - 1)) = None))
           \<or> (post = [Verification_successful f, Error_converting]
               \<and> \<not> fst r
               \<and> fst (snd r) (temp_output_path out (i + int (iterations pre) - 1))
                    = Some (File cand))))"],
   goal_cases)
  case (1 fs au d i)
  then show ?case
    by (auto simp: Cons_eq_append_conv save_last_attempt_def split: option.splits)
next
  case (2 fs au d i)
  then show ?case by (auto simp: Cons_eq_append_conv)
next
  case (3 fs au d i)
  then show ?case by (auto simp: Cons_eq_append_conv)
next
  case (4 fs au d i fs1 ok fs' evs)
  then show ?case
    by (auto simp: Cons_eq_append_conv save_last_attempt_def split: option.splits)
next
  case (5 fs au d i fs1 info)
  from export_SomeD [OF 5(3)] show ?case
    by (auto simp: Cons_eq_append_conv)
next
  case (6 fs au d i fs1 info fs2)
  from export_SomeD [OF 6(3)] 6(6) os_rename_file [of E fs "temp_output_path out i"
         "resampled E au (432 / d)" out fs2]
  show ?case
    by (auto simp: Cons_eq_append_conv)
next
  case (7 fs au d i fs1 info ok fs' evs)
  let ?h = "[Applying_speed_ratio (i + 1) (432 / d),
             Export (temp_output_path out i) (resampled E au (432 / d)),
             Post_adjustment (dominant_freq info)]"
  show ?case
  proof (intro allI impI)
    fix pre f post
    assume a: "snd (snd (ok, fs', ?h @ evs)) = pre @ Post_adjustment f # post
               \<and> \<bar>f - 432\<bar> \<le> tol"
    then obtain pre3 where p: "pre = ?h @ pre3"
      and e: "evs = pre3 @ Post_adjustment f # post"
      using 7(5) by (auto simp: Cons_eq_append_conv)
    let ?tp = "temp_output_path out (i + int (iterations pre) - 1)"
    have it: "i + 1 + int (iterations pre3) - 1 = i + int (iterations pre) - 1"
      by (simp add: p)
    from 7(7) e a
    have "\<exists>pre0 cand.
        pre3 = pre0 @ [Export (temp_output_path out (i + 1 + int (iterations pre3) - 1)) cand]
        \<and> ((post = [Verification_successful f,
                     Rename (temp_output_path out (i + 1 + int (iterations pre3) - 1)) out]
             \<and> ok
             \<and> fs' out = Some (File cand)
             \<and> (temp_output_path out (i + 1 + int (iterations pre3) - 1) \<noteq> out \<longrightarrow>
                  fs' (temp_output_path out (i + 1 + int (iterations pre3) - 1)) = None))
           \<or> (post = [Verification_successful f, Error_converting]
               \<and> \<not> ok
               \<and> fs' (temp_output_path out (i + 1 + int (iterations pre3) - 1))
                    = Some (File cand)))"
      by (simp only: fst_conv snd_conv)
    then obtain pre0 cand where p3: "pre3 = pre0 @ [Export ?tp cand]"
      and k: "(post = [Verification_successful f, Rename ?tp out]
             \<and> ok \<and> fs' out = Some (File cand) \<and> (?tp \<noteq> out \<longrightarrow> fs' ?tp = None))
           \<or> (post = [Verification_successful f, Error_converting]
               \<and> \<not> ok \<and> fs' ?tp = Some (File cand))"
      unfolding it by blast
    have "pre = (?h @ pre0) @ [Export ?tp cand]"
      using p p3 by simp
    with k
    show "\<exists>pre0 cand.
        pre = pre0 @ [Export ?tp cand]
        \<and> ((post = [Verification_successful f, Rename ?tp out]
             \<and> fst (ok, fs', ?h @ evs)
             \<and> fst (snd (ok, fs', ?h @ evs)) out = Some (File cand)
             \<and> (?tp \<noteq> out \<longrightarrow> fst (snd (ok, fs', ?h @ evs)) ?tp = None))
           \<or> (post = [Verification_successful f, Error_converting]
               \<and> \<not> fst (ok, fs', ?h @ evs)
               \<and> fst (snd (ok, fs', ?h @ evs)) ?tp = Some (File cand)))"
      unfolding fst_conv snd_conv by blast
  qed
qed

text \<open>
  Claim C5 as stated says that an iteration whose re-measured frequency is within the
  tolerance promotes its scratch file to the output path and returns success. The
  rename of line 96 can raise, and it runs after the success message of line 95: when
  the output path is an existing directory, \<^verbatim>\<open>os.rename\<close> of a file onto it
  raises, the handler of lines 105 to 107 returns \<open>False\<close>, the output path is still
  the directory, and the candidate stays at the scratch path.
\<close>

theorem rename_onto_directory_not_promoted_counterexample:
  "snd (snd (convert_to_432hz small_env [''in.wav'' \<mapsto> File exact_file, ''out.wav'' \<mapsto> Dir]
               ''in.wav'' ''out.wav'' 3 (1/2)))
     = [Tuning_info 432 [432], Applying_speed_ratio 1 1, Export ''out_temp_0.wav'' exact_file]
       @ Post_adjustment 432 # [Verification_successful 432, Error_converting]
   \<and> \<bar>432 - 432 :: real\<bar> \<le> 1/2
   \<and> fst (convert_to_432hz small_env [''in.wav'' \<mapsto> File exact_file, ''out.wav'' \<mapsto> Dir]
            ''in.wav'' ''out.wav'' 3 (1/2)) = False
   \<and> fst (snd (convert_to_432hz small_env [''in.wav'' \<mapsto> File exact_file, ''out.wav'' \<mapsto> Dir]
                 ''in.wav'' ''out.wav'' 3 (1/2))) ''out.wav'' = Some Dir
   \<and> fst (snd (convert_to_432hz small_env [''in.wav'' \<mapsto> File exact_file, ''out.wav'' \<mapsto> Dir]
                 ''in.wav'' ''out.wav'' 3 (1/2))) ''out_temp_0.wav'' = Some (File exact_file)"
  by (simp add: run_dir)

text \<open>
  Claim C5, amended. In any iteration whose re-measured dominant frequency \<open>f\<close>
  satisfies \<open>|f - 432| \<le> tolerance\<close>, the run prints the success message and tries to
  rename that iteration's scratch file to the output path, and no further iteration
  follows. If the rename succeeds the result is \<open>True\<close>, the output path holds the
  candidate exported in that iteration, and the scratch path is gone (unless it is the
  output path itself). If the rename raises the run ends in the exception handler:
  the result is \<open>False\<close> and the candidate stays at the scratch path. The iteration
  index is the number of iterations started so far, less one.
\<close>

theorem converged_iteration_promoted:
  assumes "convert_to_432hz E fs file_path output_path max_iterations tolerance = (ok, fs', evs)"
    and "evs = pre @ Post_adjustment f # post"
    and "\<bar>f - 432\<bar> \<le> tolerance"
  shows "\<exists>pre0 cand.
     pre = pre0 @ [Export (temp_output_path output_path (int (iterations pre) - 1)) cand]
     \<and> ((post = [Verification_successful f,
                  Rename (temp_output_path output_path (int (iterations pre) - 1)) output_path]
          \<and> ok
          \<and> fs' output_path = Some (File cand)
          \<and> (temp_output_path output_path (int (iterations pre) - 1) \<noteq> output_path \<longrightarrow>
               fs' (temp_output_path output_path (int (iterations pre) - 1)) = None))
        \<or> (post = [Verification_successful f, Error_converting]
            \<and> \<not> ok
            \<and> fs' (temp_output_path output_path (int (iterations pre) - 1))
                 = Some (File cand)))"
proof (cases rule: convert_cases [where E = E and fs = fs and file_path = file_path
                and out = output_path and m = max_iterations and tol = tolerance])
  case unavailable
  with assms show ?thesis by (auto simp: Cons_eq_append_conv)
next
  case (skipped info)
  with assms show ?thesis by (auto simp: Cons_eq_append_conv)
next
  case (unloadable info)
  with assms show ?thesis by (auto simp: Cons_eq_append_conv)
next
  case (looped info au ok' fs'' evs')
  let ?t = "Tuning_info (dominant_freq info) (harmonics info)"
  let ?tp = "temp_output_path output_path (int (iterations pre) - 1)"
  from looped(5) assms(1) have r: "ok' = ok" "fs'' = fs'" "evs = ?t # evs'" by simp_all
  from r(3) assms(2) obtain pre' where p: "pre = ?t # pre'"
    and e: "evs' = pre' @ Post_adjustment f # post"
    by (auto simp: Cons_eq_append_conv append_eq_Cons_conv)
  have it: "0 + int (iterations pre') - 1 = int (iterations pre) - 1" by (simp add: p)
  from conv_loop_converged [of E output_path max_iterations tolerance fs au "dominant_freq info" 0]
       e assms(3)
  have "\<exists>pre0 cand.
     pre' = pre0 @ [Export (temp_output_path output_path (0 + int (iterations pre') - 1)) cand]
     \<and> ((post = [Verification_successful f,
                  Rename (temp_output_path output_path (0 + int (iterations pre') - 1)) output_path]
          \<and> ok
          \<and> fs' output_path = Some (File cand)
          \<and> (temp_output_path output_path (0 + int (iterations pre') - 1) \<noteq> output_path \<longrightarrow>
               fs' (temp_output_path output_path (0 + int (iterations pre') - 1)) = None))
        \<or> (post = [Verification_successful f, Error_converting]
            \<and> \<not> ok
            \<and> fs' (temp_output_path output_path (0 + int (iterations pre') - 1))
                 = Some (File cand)))"
    unfolding looped(4) r by (simp only: fst_conv snd_conv)
  then obtain pre0 cand where p3: "pre' = pre0 @ [Export ?tp cand]"
    and k: "(post = [Verification_successful f, Rename ?tp output_path]
          \<and> ok \<and> fs' output_path = Some (File cand)
          \<and> (?tp \<noteq> output_path \<longrightarrow> fs' ?tp = None))
        \<or> (post = [Verification_successful f, Error_converting]
            \<and> \<not> ok \<and> fs' ?tp = Some (File cand))"
    unfolding it by blast
  have "pre = (?t # pre0) @ [Export ?tp cand]"
    using p p3 by simp
  with k show ?thesis by blast
qed

theorem converged_iteration_promoted_witness:
  "convert_to_432hz small_env [''in.wav'' \<mapsto> File exact_file] ''in.wav'' ''out.wav'' 3 (1/2) =
     (True,
      [''in.wav'' \<mapsto> File exact_file, ''out_temp_0.wav'' \<mapsto> File exact_file]
        (''out_temp_0.wav'' := None, ''out.wav'' \<mapsto> File exact_file),
      [Tuning_info 432 [432], Applying_speed_ratio 1 1, Export ''out_temp_0.wav'' exact_file]
        @ Post_adjustment 432 # [Verification_successful 432, Rename ''out_temp_0.wav'' ''out.wav''])
   \<and> \<bar>432 - 432 :: real\<bar> \<le> 1/2
   \<and> temp_output_path ''out.wav''
        (int (iterations [Tuning_info 432 [432], Applying_speed_ratio 1 1,
                          Export ''out_temp_0.wav'' exact_file]) - 1) = ''out_temp_0.wav''
   \<and> ([''in.wav'' \<mapsto> File exact_file, ''out_temp_0.wav'' \<mapsto> File exact_file]
        (''out_temp_0.wav'' := None, ''out.wav'' \<mapsto> File exact_file)) ''out.wav''
       = Some (File exact_file)
   \<and> ([''in.wav'' \<mapsto> File exact_file, ''out_temp_0.wav'' \<mapsto> File exact_file]
        (''out_temp_0.wav'' := None, ''out.wav'' \<mapsto> File exact_file)) ''out_temp_0.wav'' = None"
proof -
  have r: "convert_to_432hz small_env [''in.wav'' \<mapsto> File exact_file] ''in.wav'' ''out.wav'' 3 (1/2) =
     (True,
      [''in.wav'' \<mapsto> File exact_file, ''out_temp_0.wav'' \<mapsto> File exact_file]
        (''out_temp_0.wav'' := None, ''out.wav'' \<mapsto> File exact_file),
      [Tuning_info 432 [432], Applying_speed_ratio 1 1, Export ''out_temp_0.wav'' exact_file]
        @ Post_adjustment 432 # [Verification_successful 432, Rename ''out_temp_0.wav'' ''out.wav''])"
    using run_exact by simp
  have w: "\<bar>432 - 432 :: real\<bar> \<le> 1/2" by simp
  from converged_iteration_promoted [OF r refl w]
  show ?thesis using r w by (simp add: temp_path_0)
qed








section \<open>File names\<close>

text \<open>
  For an output path that ends in \<open>.wav\<close> and has no other occurrence of \<open>.wav\<close>,
  the scratch path is the path without its extension, followed by \<open>_temp_\<close>, the
  iteration index and \<open>.wav\<close>.
\<close>

lemma str_replace_suffix:
  assumes "old \<noteq> []"
    and "\<And>k. k < length stem \<Longrightarrow> take (length old) (drop k (stem @ old)) \<noteq> old"
  shows "str_replace old new (stem @ old) = stem @ new"
  using assms(2)
proof (induction stem)
  case Nil
  from assms(1) obtain a as where o: "old = a # as" by (cases old) auto
  show ?case unfolding o by simp
next
  case (Cons c cs)
  have h: "take (length old) (c # cs @ old) \<noteq> old"
    using Cons.prems [of 0] by simp
  have "str_replace old new (cs @ old) = cs @ new"
  proof (rule Cons.IH)
    fix k assume "k < length cs"
    then show "take (length old) (drop k (cs @ old)) \<noteq> old"
      using Cons.prems [of "Suc k"] by simp
  qed
  with h assms(1) show ?case by simp
qed

lemma temp_path_single_wav:
  assumes "\<And>k. k < length stem \<Longrightarrow>
             take (length ''.wav'') (drop k (stem @ ''.wav'')) \<noteq> ''.wav''"
  shows "temp_output_path (stem @ ''.wav'') i = stem @ ''_temp_'' @ str_int i @ ''.wav''"
proof -
  have n: "''.wav'' \<noteq> []" by simp
  show ?thesis
    unfolding temp_output_path_def
    by (rule str_replace_suffix [OF n assms])
qed

text \<open>
  Claim C9. The batch output path is \<open><relative-path-without-extension>_432Hz.wav\<close>
  under the output root, and the claim says that the scratch path of iteration \<open>i\<close> is
  \<open><output-path-without-extension>_temp_<i>.wav\<close>. The source builds the scratch path
  with \<^verbatim>\<open>output_path.replace(".wav", ...)\<close>, which rewrites every occurrence of
  \<open>.wav\<close>: for the batch output of \<open>take.wav.mp3\<close> the scratch path is not the
  claimed one, and for an output path without \<open>.wav\<close> it is the output path itself.
\<close>
theorem scratch_path_replaces_every_wav:
  "batch_output_path ''out'' ''take.wav.mp3'' = ''out/take.wav_432Hz.wav''
   \<and> temp_output_path ''out/take.wav_432Hz.wav'' 0 = ''out/take_temp_0.wav_432Hz_temp_0.wav''
   \<and> fst (splitext ''out/take.wav_432Hz.wav'') @ ''_temp_'' @ str_int 0 @ ''.wav''
        = ''out/take.wav_432Hz_temp_0.wav''
   \<and> temp_output_path ''song.mp3'' 0 = ''song.mp3''
   \<and> fst (splitext ''song.mp3'') @ ''_temp_'' @ str_int 0 @ ''.wav'' = ''song_temp_0.wav''"
proof -
  have a: "batch_output_path ''out'' ''take.wav.mp3'' = ''out/take.wav_432Hz.wav''"
    by code_simp
  have b: "temp_output_path ''out/take.wav_432Hz.wav'' 0 = ''out/take_temp_0.wav_432Hz_temp_0.wav''"
    by (simp add: temp_output_path_def str_int_def digit_char_def)
  have c: "fst (splitext ''out/take.wav_432Hz.wav'') @ ''_temp_'' @ str_int 0 @ ''.wav''
        = ''out/take.wav_432Hz_temp_0.wav''"
    by code_simp
  have d: "temp_output_path ''song.mp3'' 0 = ''song.mp3''"
    by (simp add: temp_output_path_def str_int_def digit_char_def)
  have e: "fst (splitext ''song.mp3'') @ ''_temp_'' @ str_int 0 @ ''.wav'' = ''song_temp_0.wav''"
    by code_simp
  from a b c d e show ?thesis by blast
qed

end
